theory Spec2Isabelle
  imports Complex_Main "HOL-Library.Word"
begin

unbundle bit_operations_syntax

section \<open>Machine types, errors and external declarations\<close>

text \<open>
  The directed edge record of the routing graph (\<^verbatim>\<open>DirectedEdge\<close>, namespace
  \<^verbatim>\<open>valhalla::baldr\<close>) is embedded here: its packed fields, the setters that validate
  what they store, the slope codec and the JSON projection.

  The setters take \<^verbatim>\<open>uint32_t\<close> arguments, modelled as 32-bit words. Undefined behaviour
  of C++ (a shift by at least the width of the shifted type) and the exception thrown by
  \<^verbatim>\<open>set_edgeinfo_offset\<close> are values of the type \<open>error\<close>. The diagnostics written by
  \<^verbatim>\<open>LOG_WARN\<close> and \<^verbatim>\<open>LOG_ERROR\<close> change no field and are left out.
\<close>

type_synonym u8 = "8 word"
type_synonym u32 = "32 word"
type_synonym u64 = "64 word"

datatype error = RuntimeError string | UndefinedShift

text \<open>
  The bounds constants (\<^verbatim>\<open>baldr/graphconstants.h\<close>) and the widths of the bit fields
  (\<^verbatim>\<open>baldr/directededge.h\<close>) are declared outside the translated source file. They are
  parameters of the model: every setter takes the record \<open>header\<close> of the declarations it
  depends on.
\<close>

record header =
  kAllAccess :: u32
  kMaxLocalEdgeIndex :: u32
  kMaxStopImpact :: u32
  kMaxShortcutsFromNode :: u32
  kMaxEdgeInfoOffset :: u32
  kMaxGradeFactor :: u32
  edgeinfo_offset_bits :: nat
  weighted_grade_bits :: nat
  forwardaccess_bits :: nat
  reverseaccess_bits :: nat
  max_up_slope_bits :: nat
  max_down_slope_bits :: nat
  turntype_bits :: nat
  edge_to_left_bits :: nat
  stopimpact_bits :: nat
  edge_to_right_bits :: nat
  shortcut_bits :: nat
  superseded_bits :: nat

text \<open>
  One choice of these declarations, on which the model is evaluated: nine access modes on
  the bits 0 to 8 (as listed by \<^verbatim>\<open>access_json\<close>), eight local edge indexes, seven
  shortcuts per node, three bits of stop impact and of turn type per local index, a grade
  factor of 0 to 15 and a five-bit slope code. Every field has the width that exactly
  holds its maximum.
\<close>

definition example_header :: header where
  "example_header =
     \<lparr> kAllAccess = 511, kMaxLocalEdgeIndex = 7, kMaxStopImpact = 7,
       kMaxShortcutsFromNode = 7, kMaxEdgeInfoOffset = 33554431, kMaxGradeFactor = 15,
       edgeinfo_offset_bits = 25, weighted_grade_bits = 4, forwardaccess_bits = 9,
       reverseaccess_bits = 9, max_up_slope_bits = 5, max_down_slope_bits = 5,
       turntype_bits = 24, edge_to_left_bits = 8, stopimpact_bits = 24,
       edge_to_right_bits = 8, shortcut_bits = 7, superseded_bits = 7 \<rparr>"

text \<open>Assigning to a bit field of \<open>w\<close> bits keeps the low \<open>w\<close> bits of the value.\<close>

definition bitfield :: "nat \<Rightarrow> u32 \<Rightarrow> u32" where
  "bitfield w v = take_bit w v"

section \<open>The bit-field packing primitive\<close>

text \<open>
  \<^verbatim>\<open>OverwriteBits(dst, src, pos, len)\<close>: \<^verbatim>\<open>shift = pos * len\<close> (wrapping in
  \<^verbatim>\<open>uint32_t\<close>), \<^verbatim>\<open>mask = (((uint32_t)1 << len) - 1) << shift\<close>, result
  \<^verbatim>\<open>(dst & ~mask) | (src << shift)\<close>. Both shifts are on 32-bit operands: an amount
  of 32 or more is undefined.
\<close>

definition OverwriteBits :: "u32 \<Rightarrow> u32 \<Rightarrow> u32 \<Rightarrow> u32 \<Rightarrow> error + u32" where
  "OverwriteBits dst src pos len =
     (let shift = pos * len in
      if 32 \<le> unat len \<or> 32 \<le> unat shift then Inl UndefinedShift
      else let mask = push_bit (unat shift) (push_bit (unat len) 1 - 1)
           in Inr ((dst AND NOT mask) OR push_bit (unat shift) src))"

section \<open>The directed edge record\<close>

text \<open>
  The data members of \<^verbatim>\<open>DirectedEdge\<close> that the source file assigns and reads, under
  the names of the source with its trailing underscore written \<open>_m\<close>. One-bit flags that
  are only assigned from and cast to \<^verbatim>\<open>bool\<close> are booleans (\<open>False\<close> is the bit 0);
  the other members hold unsigned numbers. The two members \<^verbatim>\<open>stopimpact_.s.stopimpact\<close>
  and \<^verbatim>\<open>stopimpact_.s.edge_to_right\<close> are \<open>stopimpact_m\<close> and \<open>edge_to_right_m\<close>; the
  view of the same storage as a transit line identifier is not modelled.
\<close>

record DirectedEdge =
  endnode_m :: u64
  edgeinfo_offset_m :: u32
  access_restriction_m :: u32
  start_restriction_m :: u32
  end_restriction_m :: u32
  exitsign_m :: bool
  length_m :: u32
  weighted_grade_m :: u32
  curvature_m :: u32
  drive_on_right_m :: bool
  deadend_m :: bool
  toll_m :: bool
  seasonal_m :: bool
  dest_only_m :: bool
  tunnel_m :: bool
  bridge_m :: bool
  roundabout_m :: bool
  unreachable_m :: bool
  traffic_signal_m :: bool
  forward_m :: bool
  not_thru_m :: bool
  opp_index_m :: u32
  cycle_lane_m :: u32
  bike_network_m :: u32
  truck_route_m :: bool
  lanecount_m :: u32
  restrictions_m :: u32
  use_m :: u32
  speed_type_m :: u32
  ctry_crossing_m :: bool
  forwardaccess_m :: u32
  reverseaccess_m :: u32
  speed_m :: u32
  speed_limit_m :: u32
  truck_speed_m :: u32
  classification_m :: u32
  surface_m :: u32
  link_m :: bool
  internal_m :: bool
  part_of_complex_restriction_m :: bool
  max_up_slope_m :: u32
  max_down_slope_m :: u32
  density_m :: u32
  named_m :: bool
  sidewalk_left_m :: bool
  sidewalk_right_m :: bool
  turntype_m :: u32
  edge_to_left_m :: u32
  stopimpact_m :: u32
  edge_to_right_m :: u32
  localedgeidx_m :: u32
  opp_local_idx_m :: u32
  shortcut_m :: u32
  is_shortcut_m :: bool
  superseded_m :: u32
  leaves_tile_m :: bool

text \<open>The record after \<^verbatim>\<open>memset(this, 0, sizeof(DirectedEdge))\<close>.\<close>

definition zeroed :: DirectedEdge where
  "zeroed =
     \<lparr> endnode_m = 0, edgeinfo_offset_m = 0, access_restriction_m = 0,
       start_restriction_m = 0, end_restriction_m = 0, exitsign_m = False, length_m = 0,
       weighted_grade_m = 0, curvature_m = 0, drive_on_right_m = False, deadend_m = False,
       toll_m = False, seasonal_m = False, dest_only_m = False, tunnel_m = False,
       bridge_m = False, roundabout_m = False, unreachable_m = False,
       traffic_signal_m = False, forward_m = False, not_thru_m = False, opp_index_m = 0,
       cycle_lane_m = 0, bike_network_m = 0, truck_route_m = False, lanecount_m = 0,
       restrictions_m = 0, use_m = 0, speed_type_m = 0, ctry_crossing_m = False,
       forwardaccess_m = 0, reverseaccess_m = 0, speed_m = 0, speed_limit_m = 0,
       truck_speed_m = 0, classification_m = 0, surface_m = 0, link_m = False,
       internal_m = False, part_of_complex_restriction_m = False, max_up_slope_m = 0,
       max_down_slope_m = 0, density_m = 0, named_m = False, sidewalk_left_m = False,
       sidewalk_right_m = False, turntype_m = 0, edge_to_left_m = 0, stopimpact_m = 0,
       edge_to_right_m = 0, localedgeidx_m = 0, opp_local_idx_m = 0, shortcut_m = 0,
       is_shortcut_m = False, superseded_m = 0, leaves_tile_m = False \<rparr>"

text \<open>The default constructor: zero everything, then \<^verbatim>\<open>weighted_grade_ = 6\<close>.\<close>

definition DirectedEdge_ctor :: "header \<Rightarrow> DirectedEdge" where
  "DirectedEdge_ctor H = zeroed\<lparr>weighted_grade_m := bitfield (weighted_grade_bits H) 6\<rparr>"

section \<open>Setters\<close>

text \<open>
  \<^verbatim>\<open>set_edgeinfo_offset\<close> throws \<^verbatim>\<open>std::runtime_error\<close> above the maximum. The result
  is the exception raised, if any, and the record as the call leaves it.
\<close>

definition set_edgeinfo_offset ::
  "header \<Rightarrow> u32 \<Rightarrow> DirectedEdge \<Rightarrow> error option \<times> DirectedEdge" where
  "set_edgeinfo_offset H offset e =
     (if offset > kMaxEdgeInfoOffset H
      then (Some (RuntimeError ''DirectedEdge: exceeded maximum edgeinfo offset''), e)
      else (None, e\<lparr>edgeinfo_offset_m := bitfield (edgeinfo_offset_bits H) offset\<rparr>))"

definition set_weighted_grade :: "header \<Rightarrow> u32 \<Rightarrow> DirectedEdge \<Rightarrow> DirectedEdge" where
  "set_weighted_grade H factor e =
     (if factor > kMaxGradeFactor H
      then e\<lparr>weighted_grade_m := bitfield (weighted_grade_bits H) 6\<rparr>
      else e\<lparr>weighted_grade_m := bitfield (weighted_grade_bits H) factor\<rparr>)"

text \<open>
  \<^verbatim>\<open>set_forwardaccess\<close>: after the \<^verbatim>\<open>if\<close>/\<^verbatim>\<open>else\<close> that masks the modes, the source
  assigns \<^verbatim>\<open>forwardaccess_ = modes\<close> once more, on every path.
\<close>

definition set_forwardaccess :: "header \<Rightarrow> u32 \<Rightarrow> DirectedEdge \<Rightarrow> DirectedEdge" where
  "set_forwardaccess H modes e =
     (let e1 = (if modes > kAllAccess H
                then e\<lparr>forwardaccess_m := bitfield (forwardaccess_bits H) (modes AND kAllAccess H)\<rparr>
                else e\<lparr>forwardaccess_m := bitfield (forwardaccess_bits H) modes\<rparr>)
      in e1\<lparr>forwardaccess_m := bitfield (forwardaccess_bits H) modes\<rparr>)"

definition set_all_forward_access :: "header \<Rightarrow> DirectedEdge \<Rightarrow> DirectedEdge" where
  "set_all_forward_access H e =
     e\<lparr>forwardaccess_m := bitfield (forwardaccess_bits H) (kAllAccess H),
       reverseaccess_m := bitfield (reverseaccess_bits H) (kAllAccess H)\<rparr>"

definition set_reverseaccess :: "header \<Rightarrow> u32 \<Rightarrow> DirectedEdge \<Rightarrow> DirectedEdge" where
  "set_reverseaccess H modes e =
     (if modes > kAllAccess H
      then e\<lparr>reverseaccess_m := bitfield (reverseaccess_bits H) (modes AND kAllAccess H)\<rparr>
      else e\<lparr>reverseaccess_m := bitfield (reverseaccess_bits H) modes\<rparr>)"

subsection \<open>The slope codec\<close>

text \<open>
  The slope is a \<^verbatim>\<open>float\<close> in the source. It is modelled by the real number it denotes:
  the comparisons are with constants that are floats, \<^verbatim>\<open>slope - 16.0f\<close> is exact for a
  float in the interval from 16 to 76, the product with \<^verbatim>\<open>0.25f\<close> and \<^verbatim>\<open>std::ceil\<close>
  are exact, so that every branch computes on a float what it computes here. A NaN is
  outside the model.
\<close>

definition max_up_slope :: "DirectedEdge \<Rightarrow> int" where
  "max_up_slope e =
     (if max_up_slope_m e AND 0x10 = 0 then uint (max_up_slope_m e)
      else 16 + uint (max_up_slope_m e AND 0xf) * 4)"

definition set_max_up_slope :: "header \<Rightarrow> real \<Rightarrow> DirectedEdge \<Rightarrow> DirectedEdge" where
  "set_max_up_slope H slope e =
     (if slope < 0 then e\<lparr>max_up_slope_m := bitfield (max_up_slope_bits H) 0\<rparr>
      else if slope < 16
      then e\<lparr>max_up_slope_m := bitfield (max_up_slope_bits H) (word_of_int \<lceil>slope\<rceil>)\<rparr>
      else if slope < 76
      then e\<lparr>max_up_slope_m :=
               bitfield (max_up_slope_bits H) (word_of_int (0x10 OR \<lceil>(slope - 16) * 0.25\<rceil>))\<rparr>
      else e\<lparr>max_up_slope_m := bitfield (max_up_slope_bits H) 0x1f\<rparr>)"

definition max_down_slope :: "DirectedEdge \<Rightarrow> int" where
  "max_down_slope e =
     (if max_down_slope_m e AND 0x10 = 0 then - uint (max_down_slope_m e)
      else - (16 + uint (max_down_slope_m e AND 0xf) * 4))"

definition set_max_down_slope :: "header \<Rightarrow> real \<Rightarrow> DirectedEdge \<Rightarrow> DirectedEdge" where
  "set_max_down_slope H slope e =
     (if slope > 0 then e\<lparr>max_down_slope_m := bitfield (max_down_slope_bits H) 0\<rparr>
      else if slope > - 16
      then e\<lparr>max_down_slope_m := bitfield (max_down_slope_bits H) (word_of_int \<lceil>- slope\<rceil>)\<rparr>
      else if slope > - 76
      then e\<lparr>max_down_slope_m :=
               bitfield (max_down_slope_bits H)
                 (word_of_int (0x10 OR \<lceil>(- slope - 16) * 0.25\<rceil>))\<rparr>
      else e\<lparr>max_down_slope_m := bitfield (max_down_slope_bits H) 0x1f\<rparr>)"

subsection \<open>Per-local-index arrays\<close>

text \<open>
  The turn type is an enumeration in the source, cast to \<^verbatim>\<open>uint32_t\<close> before the
  write; the flags \<^verbatim>\<open>left\<close> and \<^verbatim>\<open>right\<close> are booleans, converted to 0 or 1.
\<close>

definition set_turntype :: "header \<Rightarrow> u32 \<Rightarrow> u32 \<Rightarrow> DirectedEdge \<Rightarrow> error + DirectedEdge" where
  "set_turntype H localidx turntype e =
     (if localidx > kMaxLocalEdgeIndex H then Inr e
      else case OverwriteBits (turntype_m e) turntype localidx 3 of
             Inl err \<Rightarrow> Inl err
           | Inr v \<Rightarrow> Inr (e\<lparr>turntype_m := bitfield (turntype_bits H) v\<rparr>))"

definition set_edge_to_left :: "header \<Rightarrow> u32 \<Rightarrow> bool \<Rightarrow> DirectedEdge \<Rightarrow> error + DirectedEdge" where
  "set_edge_to_left H localidx left e =
     (if localidx > kMaxLocalEdgeIndex H then Inr e
      else case OverwriteBits (edge_to_left_m e) (of_bool left) localidx 1 of
             Inl err \<Rightarrow> Inl err
           | Inr v \<Rightarrow> Inr (e\<lparr>edge_to_left_m := bitfield (edge_to_left_bits H) v\<rparr>))"

text \<open>\<^verbatim>\<open>set_stopimpact\<close> tests the value only; the source has no test of \<^verbatim>\<open>localidx\<close>.\<close>

definition set_stopimpact :: "header \<Rightarrow> u32 \<Rightarrow> u32 \<Rightarrow> DirectedEdge \<Rightarrow> error + DirectedEdge" where
  "set_stopimpact H localidx stopimpact e =
     (if stopimpact > kMaxStopImpact H
      then case OverwriteBits (stopimpact_m e) (kMaxStopImpact H) localidx 3 of
             Inl err \<Rightarrow> Inl err
           | Inr v \<Rightarrow> Inr (e\<lparr>stopimpact_m := bitfield (stopimpact_bits H) v\<rparr>)
      else case OverwriteBits (stopimpact_m e) stopimpact localidx 3 of
             Inl err \<Rightarrow> Inl err
           | Inr v \<Rightarrow> Inr (e\<lparr>stopimpact_m := bitfield (stopimpact_bits H) v\<rparr>))"

definition set_edge_to_right :: "header \<Rightarrow> u32 \<Rightarrow> bool \<Rightarrow> DirectedEdge \<Rightarrow> error + DirectedEdge" where
  "set_edge_to_right H localidx right e =
     (if localidx > kMaxLocalEdgeIndex H then Inr e
      else case OverwriteBits (edge_to_right_m e) (of_bool right) localidx 1 of
             Inl err \<Rightarrow> Inl err
           | Inr v \<Rightarrow> Inr (e\<lparr>edge_to_right_m := bitfield (edge_to_right_bits H) v\<rparr>))"

subsection \<open>Shortcut and superseded masks\<close>

text \<open>
  \<^verbatim>\<open>1 << n\<close> with the \<^verbatim>\<open>int\<close> constant 1 and an amount \<open>n\<close> of type \<^verbatim>\<open>uint32_t\<close>: an
  amount of 32 or more is undefined. The amount \<^verbatim>\<open>superseded - 1\<close> wraps to
  \<open>2 ^ 32 - 1\<close> when \<^verbatim>\<open>superseded\<close> is 0.
\<close>

definition shift_one :: "u32 \<Rightarrow> error + u32" where
  "shift_one n = (if 32 \<le> unat n then Inl UndefinedShift else Inr (push_bit (unat n) 1))"

definition set_shortcut :: "header \<Rightarrow> u32 \<Rightarrow> DirectedEdge \<Rightarrow> error + DirectedEdge" where
  "set_shortcut H shortcut e =
     (if shortcut = 0 then Inr e
      else if shortcut \<le> kMaxShortcutsFromNode H
      then case shift_one (shortcut - 1) of
             Inl err \<Rightarrow> Inl err
           | Inr v \<Rightarrow> Inr (e\<lparr>shortcut_m := bitfield (shortcut_bits H) v, is_shortcut_m := True\<rparr>)
      else Inr (e\<lparr>is_shortcut_m := True\<rparr>))"

definition set_superseded :: "header \<Rightarrow> u32 \<Rightarrow> DirectedEdge \<Rightarrow> error + DirectedEdge" where
  "set_superseded H superseded e =
     (if superseded > kMaxShortcutsFromNode H then Inr e
      else case shift_one (superseded - 1) of
             Inl err \<Rightarrow> Inl err
           | Inr v \<Rightarrow> Inr (e\<lparr>superseded_m := bitfield (superseded_bits H) v\<rparr>))"

section \<open>The JSON projection\<close>

text \<open>
  The values built by \<^verbatim>\<open>json::map\<close>: booleans, unsigned numbers, fixed-precision
  numbers (\<^verbatim>\<open>json::fp_t\<close>, a value and a number of decimals), strings and maps, the
  entries of a map in the order of the initializer list. The value of the fixed-precision
  number is the real number that the \<^verbatim>\<open>double\<close> expression denotes; its rounding to a
  \<^verbatim>\<open>double\<close> is not modelled.
\<close>

datatype json =
  JBool bool
  | JUInt u64
  | JFp real nat
  | JStr string
  | JMap "(string \<times> json) list"

text \<open>
  What the projection takes from other files: the bits of the access modes and of the
  bicycle networks (\<^verbatim>\<open>baldr/graphconstants.h\<close>), the projection of the end node
  (\<^verbatim>\<open>GraphId::json\<close>) and the names of the enumerations (\<^verbatim>\<open>to_string\<close>). They are
  parameters of the model.
\<close>

record externals =
  kNcn :: u32
  kRcn :: u32
  kLcn :: u32
  kMcn :: u32
  kBicycleAccess :: u32
  kBusAccess :: u32
  kAutoAccess :: u32
  kEmergencyAccess :: u32
  kHOVAccess :: u32
  kPedestrianAccess :: u32
  kTaxiAccess :: u32
  kTruckAccess :: u32
  kWheelchairAccess :: u32
  GraphId_json :: "u64 \<Rightarrow> json"
  CycleLane_to_string :: "u32 \<Rightarrow> string"
  Use_to_string :: "u32 \<Rightarrow> string"
  SpeedType_to_string :: "u32 \<Rightarrow> string"
  RoadClass_to_string :: "u32 \<Rightarrow> string"
  Surface_to_string :: "u32 \<Rightarrow> string"

text \<open>\<^verbatim>\<open>bike_network_json\<close> takes its mask as a \<^verbatim>\<open>uint8_t\<close>.\<close>

definition bike_network_json :: "externals \<Rightarrow> u8 \<Rightarrow> json" where
  "bike_network_json X mask8 =
     JMap [(''national'', JBool (ucast mask8 AND kNcn X \<noteq> 0)),
           (''regional'', JBool (ucast mask8 AND kRcn X \<noteq> 0)),
           (''local'', JBool (ucast mask8 AND kLcn X \<noteq> 0)),
           (''mountain'', JBool (ucast mask8 AND kMcn X \<noteq> 0))]"

definition access_json :: "externals \<Rightarrow> u32 \<Rightarrow> json" where
  "access_json X access =
     JMap [(''bicycle'', JBool (access AND kBicycleAccess X \<noteq> 0)),
           (''bus'', JBool (access AND kBusAccess X \<noteq> 0)),
           (''car'', JBool (access AND kAutoAccess X \<noteq> 0)),
           (''emergency'', JBool (access AND kEmergencyAccess X \<noteq> 0)),
           (''HOV'', JBool (access AND kHOVAccess X \<noteq> 0)),
           (''pedestrian'', JBool (access AND kPedestrianAccess X \<noteq> 0)),
           (''taxi'', JBool (access AND kTaxiAccess X \<noteq> 0)),
           (''truck'', JBool (access AND kTruckAccess X \<noteq> 0)),
           (''wheelchair'', JBool (access AND kWheelchairAccess X \<noteq> 0))]"

definition json_entries :: "externals \<Rightarrow> DirectedEdge \<Rightarrow> (string \<times> json) list" where
  "json_entries X e =
     [(''end_node'', GraphId_json X (endnode_m e)),
      (''speed'', JUInt (ucast (speed_m e))),
      (''access_restriction'', JBool (access_restriction_m e \<noteq> 0)),
      (''start_restriction'', access_json X (start_restriction_m e)),
      (''end_restriction'', access_json X (end_restriction_m e)),
      (''part_of_complex_restriction'', JBool (part_of_complex_restriction_m e)),
      (''has_exit_sign'', JBool (exitsign_m e)),
      (''drive_on_right'', JBool (drive_on_right_m e)),
      (''toll'', JBool (toll_m e)),
      (''seasonal'', JBool (seasonal_m e)),
      (''destination_only'', JBool (dest_only_m e)),
      (''tunnel'', JBool (tunnel_m e)),
      (''bridge'', JBool (bridge_m e)),
      (''round_about'', JBool (roundabout_m e)),
      (''unreachable'', JBool (unreachable_m e)),
      (''traffic_signal'', JBool (traffic_signal_m e)),
      (''forward'', JBool (forward_m e)),
      (''not_thru'', JBool (not_thru_m e)),
      (''cycle_lane'', JStr (CycleLane_to_string X (cycle_lane_m e))),
      (''bike_network'', bike_network_json X (ucast (bike_network_m e))),
      (''truck_route'', JBool (truck_route_m e)),
      (''lane_count'', JUInt (ucast (lanecount_m e))),
      (''use'', JStr (Use_to_string X (use_m e))),
      (''speed_type'', JStr (SpeedType_to_string X (speed_type_m e))),
      (''country_crossing'', JBool (ctry_crossing_m e)),
      (''geo_attributes'',
         JMap [(''length'', JUInt (ucast (length_m e))),
               (''weighted_grade'', JFp ((real (unat (weighted_grade_m e)) - 6) / (6 / 10)) 2)]),
      (''access'', access_json X (forwardaccess_m e)),
      (''classification'',
         JMap [(''classification'', JStr (RoadClass_to_string X (classification_m e))),
               (''surface'', JStr (Surface_to_string X (surface_m e))),
               (''link'', JBool (link_m e)),
               (''internal'', JBool (internal_m e))])]"

text \<open>\<^verbatim>\<open>DirectedEdge::json\<close>: the map of the entries above.\<close>

definition json :: "externals \<Rightarrow> DirectedEdge \<Rightarrow> json" where
  "json X e = JMap (json_entries X e)"

section \<open>Facts about the packing primitive\<close>

lemma unat_slot_shift:
  fixes pos len :: u32
  assumes "unat pos * unat len \<le> 32"
  shows "unat (pos * len) = unat pos * unat len"
proof -
  have "unat pos * unat len < 2 ^ LENGTH(32)" using assms by simp
  then show ?thesis by (simp add: unat_mult_lem [THEN iffD1])
qed

lemma small_word_high_bits:
  fixes src :: u32
  assumes "unat src < 2 ^ l" "l \<le> j"
  shows "\<not> bit src j"
proof -
  have "take_bit l (unat src) = unat src"
    using assms(1) by (rule take_bit_nat_eq_self)
  then have "bit (unat src) j = bit (take_bit l (unat src)) j" by simp
  then have "\<not> bit (unat src) j" using assms(2) by (simp add: bit_take_bit_iff)
  then show ?thesis by (simp add: bit_unsigned_iff)
qed

lemma OverwriteBits_defined:
  assumes "unat len < 32" "unat pos * unat len + unat len \<le> 32"
  shows "OverwriteBits dst src pos len =
     Inr ((dst AND NOT (push_bit (unat pos * unat len) (mask (unat len))))
          OR push_bit (unat pos * unat len) src)"
proof -
  have s: "unat (pos * len) = unat pos * unat len"
    using assms(2) by (intro unat_slot_shift) simp
  have "unat pos * unat len < 32"
  proof (cases "unat len = 0")
    case True then show ?thesis by simp
  next
    case False then show ?thesis using assms(2) by simp
  qed
  then show ?thesis
    using assms(1) s by (simp add: OverwriteBits_def Let_def mask_eq_exp_minus_1)
qed

lemma OverwriteBits_bit:
  fixes dst src :: u32
  assumes "unat len < 32" "unat pos * unat len + unat len \<le> 32" "unat src < 2 ^ unat len"
  shows "bit ((dst AND NOT (push_bit (unat pos * unat len) (mask (unat len))))
              OR push_bit (unat pos * unat len) src) k =
         (if unat pos * unat len \<le> k \<and> k < unat pos * unat len + unat len
          then bit src (k - unat pos * unat len) else bit dst k)"
proof (cases "unat pos * unat len \<le> k \<and> k < unat pos * unat len + unat len")
  case True
  then have "k < 32" using assms(2) by simp
  with True show ?thesis
    by (auto simp: bit_or_iff bit_and_iff bit_not_iff bit_push_bit_iff bit_mask_iff)
next
  case False
  have "\<not> bit src (k - unat pos * unat len)" if "unat pos * unat len \<le> k"
    using small_word_high_bits [OF assms(3), of "k - unat pos * unat len"] that False
    by simp
  with False show ?thesis
    by (auto simp: bit_or_iff bit_and_iff bit_not_iff bit_push_bit_iff bit_mask_iff
        dest: bit_imp_le_length)
qed

text \<open>
  C3 (as amended). For every \<open>dst\<close>, \<open>src\<close>, \<open>pos\<close> and \<open>len\<close> with \<open>len < 32\<close>,
  \<open>pos * len + len \<le> 32\<close> and \<open>src < 2 ^ len\<close>, \<^verbatim>\<open>OverwriteBits\<close> is defined (no
  undefined shift) and returns \<open>dst\<close> with the \<open>len\<close> bits from position \<open>pos * len\<close>
  replaced by the bits of \<open>src\<close>; every bit outside that window is the bit of \<open>dst\<close>.
\<close>

theorem OverwriteBits_window:
  assumes "unat len < 32" "unat pos * unat len + unat len \<le> 32" "unat src < 2 ^ unat len"
  shows "\<exists>r. OverwriteBits dst src pos len = Inr r \<and>
     (\<forall>k. bit r k = (if unat pos * unat len \<le> k \<and> k < unat pos * unat len + unat len
                    then bit src (k - unat pos * unat len) else bit dst k))"
  using OverwriteBits_defined [OF assms(1,2)] OverwriteBits_bit [OF assms] by simp

theorem OverwriteBits_window_witness:
  "unat (3 :: u32) < 32 \<and> unat (2 :: u32) * unat (3 :: u32) + unat (3 :: u32) \<le> 32
   \<and> unat (5 :: u32) < 2 ^ unat (3 :: u32)
   \<and> OverwriteBits 0xFFFFFFFF 5 2 3 = Inr 0xFFFFFF7F
   \<and> (\<exists>r. OverwriteBits 0xFFFFFFFF 5 2 3 = Inr r \<and>
        (\<forall>k. bit r k = (if unat (2 :: u32) * unat (3 :: u32) \<le> k
                            \<and> k < unat (2 :: u32) * unat (3 :: u32) + unat (3 :: u32)
                         then bit (5 :: u32) (k - unat (2 :: u32) * unat (3 :: u32))
                         else bit (0xFFFFFFFF :: u32) k)))"
proof -
  have h1: "unat (3 :: u32) < 32" by simp
  have h2: "unat (2 :: u32) * unat (3 :: u32) + unat (3 :: u32) \<le> 32" by simp
  have h3: "unat (5 :: u32) < 2 ^ unat (3 :: u32)" by simp
  have v: "OverwriteBits 0xFFFFFFFF 5 2 3 = Inr 0xFFFFFF7F"
    by (simp add: OverwriteBits_def)
  from h1 h2 h3 v OverwriteBits_window [OF h1 h2 h3, of "0xFFFFFFFF"] show ?thesis
    by blast
qed

text \<open>
  C3 as stated fails twice. The source does not cut \<open>src\<close> to \<open>len\<close> bits: with
  \<open>src = 8\<close> and \<open>len = 3\<close> at slot 0, bit 3 of the result is set although it lies outside
  the window and is clear in \<open>dst\<close>. With \<open>len = 32\<close> at slot 0 the arguments fit the
  container, and \<^verbatim>\<open>(uint32_t)1 << 32\<close> is undefined.
\<close>

theorem OverwriteBits_counterexample:
  "unat (0 :: u32) * unat (3 :: u32) + unat (3 :: u32) \<le> 32
   \<and> OverwriteBits 0 8 0 3 = Inr 8 \<and> bit (8 :: u32) 3 \<and> \<not> bit (0 :: u32) 3
   \<and> unat (0 :: u32) * unat (32 :: u32) + unat (32 :: u32) \<le> 32
   \<and> OverwriteBits 0 0 0 32 = Inl UndefinedShift"
  by (simp add: OverwriteBits_def bit_numeral_simps)

section \<open>Facts about bit fields and slots\<close>

lemma bitfield_fits:
  assumes "unat v < 2 ^ w"
  shows "bitfield w v = v"
proof -
  have "bit (take_bit w v) k = bit v k" for k
  proof (cases "k < w")
    case True
    then show ?thesis by (simp add: bit_take_bit_iff)
  next
    case False
    then have "\<not> bit v k" using small_word_high_bits [OF assms, of k] by simp
    with False show ?thesis by (simp add: bit_take_bit_iff)
  qed
  then show ?thesis unfolding bitfield_def by (rule bit_eqI)
qed

lemma bitfield_one_hot:
  assumes "n < w"
  shows "bitfield w (2 ^ n) = 2 ^ n"
proof -
  have "bit (take_bit w (2 ^ n :: u32)) k = bit (2 ^ n :: u32) k" for k
    using assms by (auto simp: bit_take_bit_iff bit_exp_iff)
  then show ?thesis unfolding bitfield_def by (rule bit_eqI)
qed

lemma one_hot_bit:
  assumes "n < 32"
  shows "bit (2 ^ n :: u32) j \<longleftrightarrow> j = n"
  using assms by (auto simp: bit_exp_iff)

lemma unat_pred:
  fixes k :: u32
  assumes "k \<noteq> 0"
  shows "unat (k - 1) = unat k - 1"
  using assms by (simp add: unat_minus_one)

lemma shift_one_in_range:
  fixes k bound :: u32
  assumes "k \<noteq> 0" "k \<le> bound" "unat bound \<le> 32"
  shows "shift_one (k - 1) = Inr (2 ^ (unat k - 1))"
proof -
  have "unat k \<le> unat bound" using assms(2) by (simp add: word_le_nat_alt)
  moreover have "0 < unat k" using assms(1) by (simp add: unat_gt_0)
  ultimately have "unat k - 1 < 32" using assms(3) by simp
  then show ?thesis by (simp add: shift_one_def unat_pred [OF assms(1)])
qed

lemma shift_one_wrapped: "shift_one (0 - 1) = Inl UndefinedShift"
  by (simp add: shift_one_def unsigned_minus_1_eq_mask mask_eq_exp_minus_1)

lemma read_after_overwrite:
  fixes dst src :: u32
  assumes "unat len < 32" "unat pos * unat len + unat len \<le> 32"
    and "unat src < 2 ^ unat len" "unat pos * unat len + unat len \<le> w"
  shows "take_bit (unat len) (drop_bit (unat pos * unat len)
            (bitfield w ((dst AND NOT (push_bit (unat pos * unat len) (mask (unat len))))
               OR push_bit (unat pos * unat len) src))) = src"
proof -
  define s where "s = unat pos * unat len"
  define r where "r = (dst AND NOT (push_bit s (mask (unat len)))) OR push_bit s src"
  have window: "bit r (s + k) = bit src k" if "k < unat len" for k
    using that OverwriteBits_bit [OF assms(1-3), of dst "s + k"] by (simp add: r_def s_def)
  have "bit (take_bit (unat len) (drop_bit s (take_bit w r))) k = bit src k" for k
  proof (cases "k < unat len")
    case True
    then have "s + k < w" using assms(4) by (simp add: s_def)
    with True window [OF True] show ?thesis
      by (simp add: bit_take_bit_iff bit_drop_bit_eq)
  next
    case False
    then have "\<not> bit src k" using small_word_high_bits [OF assms(3), of k] by simp
    with False show ?thesis by (simp add: bit_take_bit_iff)
  qed
  then have "take_bit (unat len) (drop_bit s (take_bit w r)) = src" by (rule bit_eqI)
  then show ?thesis by (simp only: bitfield_def r_def s_def)
qed

lemma slot_in_range:
  fixes i bound :: u32
  assumes "i \<le> bound" "3 * (unat bound + 1) \<le> n"
  shows "unat i * unat (3 :: u32) + unat (3 :: u32) \<le> n"
proof -
  have "unat i \<le> unat bound" using assms(1) by (simp add: word_le_nat_alt)
  then show ?thesis using assms(2) by simp
qed

lemma write_slot3:
  fixes i bound src dst :: u32
  assumes "i \<le> bound" "3 * (unat bound + 1) \<le> w" "3 * (unat bound + 1) \<le> 32" "src \<le> 7"
  shows "\<exists>r. OverwriteBits dst src i 3 = Inr r
           \<and> take_bit 3 (drop_bit (unat i * 3) (bitfield w r)) = src"
proof -
  have l: "unat (3 :: u32) < 32" by simp
  have a: "unat i * unat (3 :: u32) + unat (3 :: u32) \<le> 32"
    using assms(1,3) by (rule slot_in_range)
  have b: "unat i * unat (3 :: u32) + unat (3 :: u32) \<le> w"
    using assms(1,2) by (rule slot_in_range)
  have "unat src \<le> 7" using assms(4) by (simp add: word_le_nat_alt)
  then have c: "unat src < 2 ^ unat (3 :: u32)" by simp
  from OverwriteBits_defined [OF l a, of dst src] read_after_overwrite [OF l a c b, of dst]
  show ?thesis by simp
qed

lemma turntype_zeroed: "turntype_m zeroed = 0"
  by (simp add: zeroed_def)

section \<open>Access masks\<close>

lemma set_forwardaccess_stored:
  "set_forwardaccess H modes e =
     e\<lparr>forwardaccess_m := bitfield (forwardaccess_bits H) modes\<rparr>"
  by (simp add: set_forwardaccess_def Let_def)

lemma set_reverseaccess_masked:
  assumes "kAllAccess H < modes"
  shows "set_reverseaccess H modes e =
     e\<lparr>reverseaccess_m := bitfield (reverseaccess_bits H) (modes AND kAllAccess H)\<rparr>"
  using assms by (simp add: set_reverseaccess_def)

lemma set_forwardaccess_above_mask:
  assumes "unat modes < 2 ^ forwardaccess_bits H"
  shows "forwardaccess_m (set_forwardaccess H modes e) = modes"
  using bitfield_fits [OF assms] by (simp add: set_forwardaccess_stored)

lemma below_mask_fits:
  fixes modes :: u32
  assumes "modes \<le> mask w"
  shows "modes AND mask w = modes"
proof -
  have "uint modes \<le> uint (mask w :: u32)" using assms by (simp add: word_le_def)
  also have "uint (mask w :: u32) = mask (min LENGTH(32) w)" by (rule uint_mask_eq)
  also have "\<dots> < (2 :: int) ^ min LENGTH(32) w" by (simp add: mask_eq_exp_minus_1)
  also have "\<dots> \<le> 2 ^ w" by (rule power_increasing) simp_all
  finally show ?thesis by (simp add: mask_eq_iff)
qed

text \<open>
  C1. Provided \<open>kAllAccess\<close> is the mask of all bits of the forward-access field (the
  field is sized to hold exactly its maximum): \<^verbatim>\<open>set_forwardaccess(modes)\<close> with
  \<open>modes > kAllAccess\<close> leaves \<open>modes AND kAllAccess\<close> in the forward access mask and
  changes nothing else; with \<open>modes \<le> kAllAccess\<close> it stores \<open>modes\<close> unchanged; in no
  case does the stored value have a bit outside \<open>kAllAccess\<close>. The last statement of the
  source assigns \<open>modes\<close> again after the masking branch; it is the width of the field
  that cuts this second assignment to the bits of \<open>kAllAccess\<close>.
\<close>

theorem set_forwardaccess_masks:
  assumes "kAllAccess H = mask (forwardaccess_bits H)"
  shows "(kAllAccess H < modes \<longrightarrow>
            set_forwardaccess H modes e = e\<lparr>forwardaccess_m := modes AND kAllAccess H\<rparr>)
    \<and> (modes \<le> kAllAccess H \<longrightarrow>
            set_forwardaccess H modes e = e\<lparr>forwardaccess_m := modes\<rparr>)
    \<and> forwardaccess_m (set_forwardaccess H modes e) AND NOT (kAllAccess H) = 0"
proof -
  have stored: "bitfield (forwardaccess_bits H) modes = modes AND kAllAccess H"
    by (simp add: bitfield_def take_bit_eq_mask assms)
  have small: "bitfield (forwardaccess_bits H) modes = modes" if "modes \<le> kAllAccess H"
    using that below_mask_fits [of modes "forwardaccess_bits H"]
    by (simp add: bitfield_def take_bit_eq_mask assms)
  have outside: "(modes AND kAllAccess H) AND NOT (kAllAccess H) = 0"
    by (rule bit_eqI) (simp add: bit_and_iff bit_not_iff)
  show ?thesis
    using small outside by (simp add: set_forwardaccess_stored stored)
qed

theorem set_forwardaccess_masks_witness:
  "kAllAccess example_header = mask (forwardaccess_bits example_header)
   \<and> kAllAccess example_header < 1029
   \<and> set_forwardaccess example_header 1029 zeroed = zeroed\<lparr>forwardaccess_m := 5\<rparr>
   \<and> (1029 :: u32) AND kAllAccess example_header = 5
   \<and> 300 \<le> kAllAccess example_header
   \<and> set_forwardaccess example_header 300 zeroed = zeroed\<lparr>forwardaccess_m := 300\<rparr>
   \<and> forwardaccess_m (set_forwardaccess example_header 1029 zeroed)
         AND NOT (kAllAccess example_header) = 0"
proof -
  have h: "kAllAccess example_header = mask (forwardaccess_bits example_header)"
    by (simp add: example_header_def mask_eq_exp_minus_1)
  have big: "kAllAccess example_header < 1029" by (simp add: example_header_def)
  have small: "300 \<le> kAllAccess example_header" by (simp add: example_header_def)
  have v: "(1029 :: u32) AND kAllAccess example_header = 5" by (simp add: example_header_def)
  note t1 = set_forwardaccess_masks [OF h, where e = zeroed and modes = 1029]
  note t2 = set_forwardaccess_masks [OF h, where e = zeroed and modes = 300]
  from t1 big v
  have a: "set_forwardaccess example_header 1029 zeroed = zeroed\<lparr>forwardaccess_m := 5\<rparr>"
    by simp
  from t2 small
  have b: "set_forwardaccess example_header 300 zeroed = zeroed\<lparr>forwardaccess_m := 300\<rparr>"
    by simp
  from t1
  have c: "forwardaccess_m (set_forwardaccess example_header 1029 zeroed)
         AND NOT (kAllAccess example_header) = 0"
    by (rule conjunct2 [OF conjunct2])
  from h big a v small b c show ?thesis by (intro conjI)
qed


section \<open>Stop impact\<close>

lemma set_stopimpact_clamps_value:
  assumes "3 * (unat (kMaxLocalEdgeIndex H) + 1) \<le> stopimpact_bits H"
    and "3 * (unat (kMaxLocalEdgeIndex H) + 1) \<le> 32"
    and "kMaxStopImpact H \<le> 7"
    and "i \<le> kMaxLocalEdgeIndex H" and "kMaxStopImpact H < v"
  shows "\<exists>e'. set_stopimpact H i v e = Inr e'
           \<and> take_bit 3 (drop_bit (unat i * 3) (stopimpact_m e')) = kMaxStopImpact H"
proof -
  from write_slot3 [OF assms(4,1,2,3), of "stopimpact_m e"]
  obtain r where r: "OverwriteBits (stopimpact_m e) (kMaxStopImpact H) i 3 = Inr r"
    and rd: "take_bit 3 (drop_bit (unat i * 3) (bitfield (stopimpact_bits H) r)) =
        kMaxStopImpact H"
    by blast
  have "set_stopimpact H i v e = Inr (e\<lparr>stopimpact_m := bitfield (stopimpact_bits H) r\<rparr>)"
    using r assms(5) by (simp add: set_stopimpact_def)
  with rd show ?thesis by simp
qed

lemma set_stopimpact_index_11: "set_stopimpact H 11 v e = Inl UndefinedShift"
  by (simp add: set_stopimpact_def OverwriteBits_def)

text \<open>
  C2. The claim: \<^verbatim>\<open>set_stopimpact(i, v)\<close> with \<open>i > kMaxLocalEdgeIndex\<close> is rejected and
  leaves the record unchanged. The source tests only the value \<open>v\<close>; unlike
  \<^verbatim>\<open>set_turntype\<close>, \<^verbatim>\<open>set_edge_to_left\<close> and \<^verbatim>\<open>set_edge_to_right\<close> it has no test of
  the index. With eight local indexes, the index 11 reaches \<^verbatim>\<open>OverwriteBits\<close> with a
  shift of 33 bits on a 32-bit operand, which is undefined; \<^verbatim>\<open>set_turntype\<close> rejects the
  same index.
\<close>

theorem set_stopimpact_index_unguarded:
  "kMaxLocalEdgeIndex example_header < 11
   \<and> set_stopimpact example_header 11 1 zeroed = Inl UndefinedShift
   \<and> set_turntype example_header 11 1 zeroed = Inr zeroed"
  by (simp add: set_stopimpact_def set_turntype_def OverwriteBits_def example_header_def)

section \<open>Per-index turn types and flags\<close>

text \<open>
  C8. Provided the turn-type field holds three bits for every local index up to
  \<open>kMaxLocalEdgeIndex\<close> (and these fit the 32-bit container of the packing primitive):
  for every index \<open>i \<le> kMaxLocalEdgeIndex\<close> and every turn-type code \<open>T \<le> 7\<close>,
  \<^verbatim>\<open>set_turntype(i, T)\<close> succeeds and the three-bit slot \<open>i\<close> of the turn-type field then
  reads \<open>T\<close>; for every \<open>i > kMaxLocalEdgeIndex\<close>, \<^verbatim>\<open>set_turntype\<close>,
  \<^verbatim>\<open>set_edge_to_left\<close> and \<^verbatim>\<open>set_edge_to_right\<close> return the record unchanged.
\<close>

theorem set_turntype_roundtrip:
  assumes "3 * (unat (kMaxLocalEdgeIndex H) + 1) \<le> turntype_bits H"
    and "3 * (unat (kMaxLocalEdgeIndex H) + 1) \<le> 32"
  shows "(i \<le> kMaxLocalEdgeIndex H \<and> T \<le> 7 \<longrightarrow>
            (\<exists>e'. set_turntype H i T e = Inr e'
                  \<and> take_bit 3 (drop_bit (unat i * 3) (turntype_m e')) = T))
    \<and> (kMaxLocalEdgeIndex H < i \<longrightarrow>
            set_turntype H i T e = Inr e \<and> set_edge_to_left H i b e = Inr e
            \<and> set_edge_to_right H i b e = Inr e)"
proof (intro conjI impI)
  assume h: "i \<le> kMaxLocalEdgeIndex H \<and> T \<le> 7"
  then have i: "i \<le> kMaxLocalEdgeIndex H" and T: "T \<le> 7" by simp_all
  from write_slot3 [OF i assms T, of "turntype_m e"]
  obtain r where r: "OverwriteBits (turntype_m e) T i 3 = Inr r"
    and rd: "take_bit 3 (drop_bit (unat i * 3) (bitfield (turntype_bits H) r)) = T" by blast
  have "\<not> kMaxLocalEdgeIndex H < i" using i by simp
  then have "set_turntype H i T e = Inr (e\<lparr>turntype_m := bitfield (turntype_bits H) r\<rparr>)"
    using r by (simp add: set_turntype_def)
  with rd show "\<exists>e'. set_turntype H i T e = Inr e'
      \<and> take_bit 3 (drop_bit (unat i * 3) (turntype_m e')) = T"
    by simp
next
  assume "kMaxLocalEdgeIndex H < i"
  then show "set_turntype H i T e = Inr e" by (simp add: set_turntype_def)
next
  assume "kMaxLocalEdgeIndex H < i"
  then show "set_edge_to_left H i b e = Inr e" by (simp add: set_edge_to_left_def)
next
  assume "kMaxLocalEdgeIndex H < i"
  then show "set_edge_to_right H i b e = Inr e" by (simp add: set_edge_to_right_def)
qed

theorem set_turntype_roundtrip_witness:
  "3 * (unat (kMaxLocalEdgeIndex example_header) + 1) \<le> turntype_bits example_header
   \<and> 3 * (unat (kMaxLocalEdgeIndex example_header) + 1) \<le> 32
   \<and> 5 \<le> kMaxLocalEdgeIndex example_header \<and> (6 :: u32) \<le> 7
   \<and> set_turntype example_header 5 6 zeroed = Inr (zeroed\<lparr>turntype_m := 196608\<rparr>)
   \<and> take_bit 3 (drop_bit (unat (5 :: u32) * 3) (196608 :: u32)) = 6
   \<and> (\<exists>e'. set_turntype example_header 5 6 zeroed = Inr e'
          \<and> take_bit 3 (drop_bit (unat (5 :: u32) * 3) (turntype_m e')) = (6 :: u32))
   \<and> kMaxLocalEdgeIndex example_header < 8
   \<and> set_turntype example_header 8 6 zeroed = Inr zeroed
   \<and> set_edge_to_left example_header 8 True zeroed = Inr zeroed
   \<and> set_edge_to_right example_header 8 True zeroed = Inr zeroed"
proof -
  have h1: "3 * (unat (kMaxLocalEdgeIndex example_header) + 1) \<le> turntype_bits example_header"
    by (simp add: example_header_def)
  have h2: "3 * (unat (kMaxLocalEdgeIndex example_header) + 1) \<le> 32"
    by (simp add: example_header_def)
  have i5: "5 \<le> kMaxLocalEdgeIndex example_header \<and> (6 :: u32) \<le> 7"
    by (simp add: example_header_def)
  have i8: "kMaxLocalEdgeIndex example_header < 8"
    by (simp add: example_header_def)
  have v: "set_turntype example_header 5 6 zeroed = Inr (zeroed\<lparr>turntype_m := 196608\<rparr>)"
    by (simp add: set_turntype_def OverwriteBits_def example_header_def bitfield_def
        turntype_zeroed)
  have rd: "take_bit 3 (drop_bit (unat (5 :: u32) * 3) (196608 :: u32)) = 6"
    by simp
  from set_turntype_roundtrip [OF h1 h2, where e = zeroed and i = 5 and T = 6] i5
  have ex: "\<exists>e'. set_turntype example_header 5 6 zeroed = Inr e'
          \<and> take_bit 3 (drop_bit (unat (5 :: u32) * 3) (turntype_m e')) = (6 :: u32)"
    by simp
  moreover from set_turntype_roundtrip [OF h1 h2, where e = zeroed and i = 8 and T = 6
      and b = True] i8
  have "set_turntype example_header 8 6 zeroed = Inr zeroed
    \<and> set_edge_to_left example_header 8 True zeroed = Inr zeroed
    \<and> set_edge_to_right example_header 8 True zeroed = Inr zeroed"
    by simp
  ultimately show ?thesis using h1 h2 i5 i8 v rd by simp
qed

section \<open>Shortcut and superseded masks\<close>

text \<open>
  C4. Provided the shortcut field holds one bit for each of the \<open>kMaxShortcutsFromNode\<close>
  shortcuts (at most 32): \<^verbatim>\<open>set_shortcut(0)\<close> returns the record unchanged; for
  \<open>1 \<le> k \<le> kMaxShortcutsFromNode\<close>, \<^verbatim>\<open>set_shortcut(k)\<close> stores the mask \<open>2 ^ (k - 1)\<close>,
  whose only set bit is bit \<open>k - 1\<close>, and sets \<open>is_shortcut\<close>; for
  \<open>k > kMaxShortcutsFromNode\<close> it changes nothing but \<open>is_shortcut\<close>, which it sets.
\<close>

theorem set_shortcut_policy:
  assumes "unat (kMaxShortcutsFromNode H) \<le> shortcut_bits H"
    and "unat (kMaxShortcutsFromNode H) \<le> 32"
  shows "set_shortcut H 0 e = Inr e
    \<and> (1 \<le> k \<and> k \<le> kMaxShortcutsFromNode H \<longrightarrow>
         set_shortcut H k e =
           Inr (e\<lparr>shortcut_m := 2 ^ (unat k - 1), is_shortcut_m := True\<rparr>)
         \<and> (\<forall>j. bit (2 ^ (unat k - 1) :: u32) j \<longleftrightarrow> j = unat k - 1))
    \<and> (kMaxShortcutsFromNode H < k \<longrightarrow> set_shortcut H k e = Inr (e\<lparr>is_shortcut_m := True\<rparr>))"
proof (intro conjI impI)
  show "set_shortcut H 0 e = Inr e" by (simp add: set_shortcut_def)
next
  assume k: "1 \<le> k \<and> k \<le> kMaxShortcutsFromNode H"
  then have nz: "k \<noteq> 0" by auto
  have le: "unat k \<le> unat (kMaxShortcutsFromNode H)" using k by (simp add: word_le_nat_alt)
  have pos: "0 < unat k" using nz by (simp add: unat_gt_0)
  have "unat k - 1 < shortcut_bits H" using le pos assms(1) by simp
  then have "bitfield (shortcut_bits H) (2 ^ (unat k - 1)) = 2 ^ (unat k - 1)"
    by (rule bitfield_one_hot)
  then show "set_shortcut H k e =
      Inr (e\<lparr>shortcut_m := 2 ^ (unat k - 1), is_shortcut_m := True\<rparr>)"
    using k nz shift_one_in_range [OF nz _ assms(2), of ] by (simp add: set_shortcut_def)
  have "unat k - 1 < 32" using le pos assms(2) by simp
  then show "\<forall>j. bit (2 ^ (unat k - 1) :: u32) j \<longleftrightarrow> j = unat k - 1"
    by (simp add: one_hot_bit)
next
  assume "kMaxShortcutsFromNode H < k"
  then show "set_shortcut H k e = Inr (e\<lparr>is_shortcut_m := True\<rparr>)"
    by (auto simp: set_shortcut_def)
qed

theorem set_shortcut_policy_witness:
  "unat (kMaxShortcutsFromNode example_header) \<le> shortcut_bits example_header
   \<and> unat (kMaxShortcutsFromNode example_header) \<le> 32
   \<and> set_shortcut example_header 0 zeroed = Inr zeroed
   \<and> (1 :: u32) \<le> 3 \<and> 3 \<le> kMaxShortcutsFromNode example_header
   \<and> set_shortcut example_header 3 zeroed =
       Inr (zeroed\<lparr>shortcut_m := 4, is_shortcut_m := True\<rparr>)
   \<and> kMaxShortcutsFromNode example_header < 9
   \<and> set_shortcut example_header 9 zeroed = Inr (zeroed\<lparr>is_shortcut_m := True\<rparr>)"
proof -
  have h1: "unat (kMaxShortcutsFromNode example_header) \<le> shortcut_bits example_header"
    by (simp add: example_header_def)
  have h2: "unat (kMaxShortcutsFromNode example_header) \<le> 32"
    by (simp add: example_header_def)
  have k3: "(1 :: u32) \<le> 3 \<and> 3 \<le> kMaxShortcutsFromNode example_header"
    by (simp add: example_header_def)
  have k9: "kMaxShortcutsFromNode example_header < 9"
    by (simp add: example_header_def)
  from set_shortcut_policy [OF h1 h2, where e = zeroed and k = 3] k3
  have "set_shortcut example_header 0 zeroed = Inr zeroed"
    and "set_shortcut example_header 3 zeroed =
       Inr (zeroed\<lparr>shortcut_m := 4, is_shortcut_m := True\<rparr>)"
    by simp_all
  moreover from set_shortcut_policy [OF h1 h2, where e = zeroed and k = 9] k9
  have "set_shortcut example_header 9 zeroed = Inr (zeroed\<lparr>is_shortcut_m := True\<rparr>)"
    by simp
  ultimately show ?thesis using h1 h2 k3 k9 by simp
qed

text \<open>
  C5. Provided the superseded field holds one bit for each of the
  \<open>kMaxShortcutsFromNode\<close> shortcuts (at most 32): for \<open>1 \<le> s \<le> kMaxShortcutsFromNode\<close>,
  \<^verbatim>\<open>set_superseded(s)\<close> stores the mask \<open>2 ^ (s - 1)\<close>, whose only set bit is bit
  \<open>s - 1\<close>; for \<open>s > kMaxShortcutsFromNode\<close> the record is unchanged; and the call
  reaches an undefined shift (the amount \<open>s - 1\<close> wraps to \<open>2 ^ 32 - 1\<close>) exactly when
  \<open>s = 0\<close>.
\<close>

theorem set_superseded_policy:
  assumes "unat (kMaxShortcutsFromNode H) \<le> superseded_bits H"
    and "unat (kMaxShortcutsFromNode H) \<le> 32"
  shows "(1 \<le> s \<and> s \<le> kMaxShortcutsFromNode H \<longrightarrow>
           set_superseded H s e = Inr (e\<lparr>superseded_m := 2 ^ (unat s - 1)\<rparr>)
           \<and> (\<forall>j. bit (2 ^ (unat s - 1) :: u32) j \<longleftrightarrow> j = unat s - 1))
    \<and> (kMaxShortcutsFromNode H < s \<longrightarrow> set_superseded H s e = Inr e)
    \<and> (set_superseded H s e = Inl UndefinedShift \<longleftrightarrow> s = 0)"
proof -
  have in_range: "set_superseded H s e = Inr (e\<lparr>superseded_m := 2 ^ (unat s - 1)\<rparr>)
      \<and> (\<forall>j. bit (2 ^ (unat s - 1) :: u32) j \<longleftrightarrow> j = unat s - 1)"
    if s: "s \<noteq> 0" "s \<le> kMaxShortcutsFromNode H"
  proof -
    have le: "unat s \<le> unat (kMaxShortcutsFromNode H)" using s(2) by (simp add: word_le_nat_alt)
    have pos: "0 < unat s" using s(1) by (simp add: unat_gt_0)
    have "unat s - 1 < superseded_bits H" using le pos assms(1) by simp
    then have "bitfield (superseded_bits H) (2 ^ (unat s - 1)) = 2 ^ (unat s - 1)"
      by (rule bitfield_one_hot)
    moreover have "\<not> kMaxShortcutsFromNode H < s" using s(2) by simp
    ultimately have "set_superseded H s e = Inr (e\<lparr>superseded_m := 2 ^ (unat s - 1)\<rparr>)"
      using shift_one_in_range [OF s assms(2)] by (simp add: set_superseded_def)
    moreover have "unat s - 1 < 32" using le pos assms(2) by simp
    ultimately show ?thesis by (simp add: one_hot_bit)
  qed
  have above: "set_superseded H s e = Inr e" if "kMaxShortcutsFromNode H < s"
    using that by (simp add: set_superseded_def)
  have zero: "set_superseded H 0 e = Inl UndefinedShift"
    using shift_one_wrapped by (simp add: set_superseded_def)
  have "set_superseded H s e \<noteq> Inl UndefinedShift" if "s \<noteq> 0"
  proof (cases "kMaxShortcutsFromNode H < s")
    case True then show ?thesis by (simp add: above)
  next
    case False
    then have "s \<le> kMaxShortcutsFromNode H" by simp
    then show ?thesis using in_range [OF that] by simp
  qed
  with zero have iff: "set_superseded H s e = Inl UndefinedShift \<longleftrightarrow> s = 0" by auto
  have "1 \<le> s \<Longrightarrow> s \<noteq> 0" by auto
  with in_range above iff show ?thesis by blast
qed

theorem set_superseded_policy_witness:
  "unat (kMaxShortcutsFromNode example_header) \<le> superseded_bits example_header
   \<and> unat (kMaxShortcutsFromNode example_header) \<le> 32
   \<and> (1 :: u32) \<le> 3 \<and> 3 \<le> kMaxShortcutsFromNode example_header
   \<and> set_superseded example_header 3 zeroed = Inr (zeroed\<lparr>superseded_m := 4\<rparr>)
   \<and> kMaxShortcutsFromNode example_header < 9
   \<and> set_superseded example_header 9 zeroed = Inr zeroed
   \<and> set_superseded example_header 0 zeroed = Inl UndefinedShift"
proof -
  have h1: "unat (kMaxShortcutsFromNode example_header) \<le> superseded_bits example_header"
    by (simp add: example_header_def)
  have h2: "unat (kMaxShortcutsFromNode example_header) \<le> 32"
    by (simp add: example_header_def)
  have k3: "(1 :: u32) \<le> 3 \<and> 3 \<le> kMaxShortcutsFromNode example_header"
    by (simp add: example_header_def)
  have k9: "kMaxShortcutsFromNode example_header < 9"
    by (simp add: example_header_def)
  from set_superseded_policy [OF h1 h2, where e = zeroed and s = 3] k3
  have "set_superseded example_header 3 zeroed = Inr (zeroed\<lparr>superseded_m := 4\<rparr>)"
    by simp
  moreover from set_superseded_policy [OF h1 h2, where e = zeroed and s = 9] k9
  have "set_superseded example_header 9 zeroed = Inr zeroed"
    by simp
  moreover from set_superseded_policy [OF h1 h2, where e = zeroed and s = 0]
  have "set_superseded example_header 0 zeroed = Inl UndefinedShift"
    by simp
  ultimately show ?thesis using h1 h2 k3 k9 by simp
qed

section \<open>Edge-info offset\<close>

text \<open>
  C7. Provided the offset field holds \<open>kMaxEdgeInfoOffset\<close>: an offset above
  \<open>kMaxEdgeInfoOffset\<close> makes \<^verbatim>\<open>set_edgeinfo_offset\<close> throw the runtime error and
  leave the record as it was; every offset up to \<open>kMaxEdgeInfoOffset\<close> is stored
  unmodified, without an exception.
\<close>

theorem set_edgeinfo_offset_fatal:
  assumes "unat (kMaxEdgeInfoOffset H) < 2 ^ edgeinfo_offset_bits H"
  shows "(kMaxEdgeInfoOffset H < offset \<longrightarrow>
            set_edgeinfo_offset H offset e =
              (Some (RuntimeError ''DirectedEdge: exceeded maximum edgeinfo offset''), e))
    \<and> (offset \<le> kMaxEdgeInfoOffset H \<longrightarrow>
            set_edgeinfo_offset H offset e = (None, e\<lparr>edgeinfo_offset_m := offset\<rparr>))"
proof (intro conjI impI)
  assume "kMaxEdgeInfoOffset H < offset"
  then show "set_edgeinfo_offset H offset e =
      (Some (RuntimeError ''DirectedEdge: exceeded maximum edgeinfo offset''), e)"
    by (simp add: set_edgeinfo_offset_def)
next
  assume le: "offset \<le> kMaxEdgeInfoOffset H"
  then have "unat offset \<le> unat (kMaxEdgeInfoOffset H)" by (simp add: word_le_nat_alt)
  then have "unat offset < 2 ^ edgeinfo_offset_bits H" using assms by simp
  then have "bitfield (edgeinfo_offset_bits H) offset = offset" by (rule bitfield_fits)
  moreover have "\<not> kMaxEdgeInfoOffset H < offset" using le by simp
  ultimately show "set_edgeinfo_offset H offset e = (None, e\<lparr>edgeinfo_offset_m := offset\<rparr>)"
    by (simp add: set_edgeinfo_offset_def)
qed

theorem set_edgeinfo_offset_fatal_witness:
  "unat (kMaxEdgeInfoOffset example_header) < 2 ^ edgeinfo_offset_bits example_header
   \<and> kMaxEdgeInfoOffset example_header < 33554432
   \<and> set_edgeinfo_offset example_header 33554432 zeroed =
       (Some (RuntimeError ''DirectedEdge: exceeded maximum edgeinfo offset''), zeroed)
   \<and> 1000 \<le> kMaxEdgeInfoOffset example_header
   \<and> set_edgeinfo_offset example_header 1000 zeroed =
       (None, zeroed\<lparr>edgeinfo_offset_m := 1000\<rparr>)"
proof -
  have h: "unat (kMaxEdgeInfoOffset example_header) < 2 ^ edgeinfo_offset_bits example_header"
    by (simp add: example_header_def)
  have big: "kMaxEdgeInfoOffset example_header < 33554432"
    by (simp add: example_header_def)
  have small: "1000 \<le> kMaxEdgeInfoOffset example_header"
    by (simp add: example_header_def)
  from set_edgeinfo_offset_fatal [OF h, where e = zeroed and offset = 33554432] big
  have "set_edgeinfo_offset example_header 33554432 zeroed =
       (Some (RuntimeError ''DirectedEdge: exceeded maximum edgeinfo offset''), zeroed)"
    by simp
  moreover from set_edgeinfo_offset_fatal [OF h, where e = zeroed and offset = 1000] small
  have "set_edgeinfo_offset example_header 1000 zeroed =
       (None, zeroed\<lparr>edgeinfo_offset_m := 1000\<rparr>)"
    by simp
  ultimately show ?thesis using h big small by simp
qed

section \<open>Weighted grade\<close>

lemma zeroed_with_grade_6:
  "zeroed\<lparr>weighted_grade_m := 6\<rparr> =
     \<lparr> endnode_m = 0, edgeinfo_offset_m = 0, access_restriction_m = 0,
         start_restriction_m = 0, end_restriction_m = 0, exitsign_m = False, length_m = 0,
         weighted_grade_m = 6, curvature_m = 0, drive_on_right_m = False,
         deadend_m = False, toll_m = False, seasonal_m = False, dest_only_m = False,
         tunnel_m = False, bridge_m = False, roundabout_m = False, unreachable_m = False,
         traffic_signal_m = False, forward_m = False, not_thru_m = False, opp_index_m = 0,
         cycle_lane_m = 0, bike_network_m = 0, truck_route_m = False, lanecount_m = 0,
         restrictions_m = 0, use_m = 0, speed_type_m = 0, ctry_crossing_m = False,
         forwardaccess_m = 0, reverseaccess_m = 0, speed_m = 0, speed_limit_m = 0,
         truck_speed_m = 0, classification_m = 0, surface_m = 0, link_m = False,
         internal_m = False, part_of_complex_restriction_m = False, max_up_slope_m = 0,
         max_down_slope_m = 0, density_m = 0, named_m = False, sidewalk_left_m = False,
         sidewalk_right_m = False, turntype_m = 0, edge_to_left_m = 0, stopimpact_m = 0,
         edge_to_right_m = 0, localedgeidx_m = 0, opp_local_idx_m = 0, shortcut_m = 0,
         is_shortcut_m = False, superseded_m = 0, leaves_tile_m = False \<rparr>"
  by (rule DirectedEdge.equality; simp; simp add: zeroed_def)

text \<open>
  C9. With \<open>kMaxGradeFactor = 15\<close> and a weighted-grade field of at least four bits: the
  default constructor yields the record in which \<open>weighted_grade\<close> is 6 and every other
  member is zero (each flag clear); for every factor \<open>F > 15\<close>,
  \<^verbatim>\<open>set_weighted_grade(F)\<close> stores 6; for \<open>F \<le> 15\<close> it stores \<open>F\<close>.
\<close>

theorem weighted_grade_default:
  assumes "kMaxGradeFactor H = 15" and "4 \<le> weighted_grade_bits H"
  shows "DirectedEdge_ctor H =
       \<lparr> endnode_m = 0, edgeinfo_offset_m = 0, access_restriction_m = 0,
         start_restriction_m = 0, end_restriction_m = 0, exitsign_m = False, length_m = 0,
         weighted_grade_m = 6, curvature_m = 0, drive_on_right_m = False,
         deadend_m = False, toll_m = False, seasonal_m = False, dest_only_m = False,
         tunnel_m = False, bridge_m = False, roundabout_m = False, unreachable_m = False,
         traffic_signal_m = False, forward_m = False, not_thru_m = False, opp_index_m = 0,
         cycle_lane_m = 0, bike_network_m = 0, truck_route_m = False, lanecount_m = 0,
         restrictions_m = 0, use_m = 0, speed_type_m = 0, ctry_crossing_m = False,
         forwardaccess_m = 0, reverseaccess_m = 0, speed_m = 0, speed_limit_m = 0,
         truck_speed_m = 0, classification_m = 0, surface_m = 0, link_m = False,
         internal_m = False, part_of_complex_restriction_m = False, max_up_slope_m = 0,
         max_down_slope_m = 0, density_m = 0, named_m = False, sidewalk_left_m = False,
         sidewalk_right_m = False, turntype_m = 0, edge_to_left_m = 0, stopimpact_m = 0,
         edge_to_right_m = 0, localedgeidx_m = 0, opp_local_idx_m = 0, shortcut_m = 0,
         is_shortcut_m = False, superseded_m = 0, leaves_tile_m = False \<rparr>
    \<and> (15 < F \<longrightarrow> set_weighted_grade H F e = e\<lparr>weighted_grade_m := 6\<rparr>)
    \<and> (F \<le> 15 \<longrightarrow> set_weighted_grade H F e = e\<lparr>weighted_grade_m := F\<rparr>)"
proof -
  have pow: "(2 :: nat) ^ 4 \<le> 2 ^ weighted_grade_bits H"
    using assms(2) by (rule power_increasing) simp
  have six: "bitfield (weighted_grade_bits H) 6 = 6"
    by (rule bitfield_fits) (use pow in simp)
  have small: "bitfield (weighted_grade_bits H) F = F" if "F \<le> 15"
  proof (rule bitfield_fits)
    have "unat F \<le> 15" using that by (simp add: word_le_nat_alt)
    then show "unat F < 2 ^ weighted_grade_bits H" using pow by simp
  qed
  have ctor: "DirectedEdge_ctor H = zeroed\<lparr>weighted_grade_m := 6\<rparr>"
    by (simp add: DirectedEdge_ctor_def six)
  have above: "set_weighted_grade H F e = e\<lparr>weighted_grade_m := 6\<rparr>" if "15 < F"
    using that six by (simp add: set_weighted_grade_def assms(1))
  have below: "set_weighted_grade H F e = e\<lparr>weighted_grade_m := F\<rparr>" if "F \<le> 15"
  proof -
    have "\<not> 15 < F" using that by simp
    then show ?thesis using small [OF that] by (simp add: set_weighted_grade_def assms(1))
  qed
  have lit: "DirectedEdge_ctor H = zeroed\<lparr>weighted_grade_m := 6\<rparr>" by (rule ctor)
  show ?thesis
    unfolding zeroed_with_grade_6 [symmetric] using lit above below by blast
qed

theorem weighted_grade_default_witness:
  "kMaxGradeFactor example_header = 15 \<and> 4 \<le> weighted_grade_bits example_header
   \<and> DirectedEdge_ctor example_header =
       \<lparr> endnode_m = 0, edgeinfo_offset_m = 0, access_restriction_m = 0,
         start_restriction_m = 0, end_restriction_m = 0, exitsign_m = False, length_m = 0,
         weighted_grade_m = 6, curvature_m = 0, drive_on_right_m = False,
         deadend_m = False, toll_m = False, seasonal_m = False, dest_only_m = False,
         tunnel_m = False, bridge_m = False, roundabout_m = False, unreachable_m = False,
         traffic_signal_m = False, forward_m = False, not_thru_m = False, opp_index_m = 0,
         cycle_lane_m = 0, bike_network_m = 0, truck_route_m = False, lanecount_m = 0,
         restrictions_m = 0, use_m = 0, speed_type_m = 0, ctry_crossing_m = False,
         forwardaccess_m = 0, reverseaccess_m = 0, speed_m = 0, speed_limit_m = 0,
         truck_speed_m = 0, classification_m = 0, surface_m = 0, link_m = False,
         internal_m = False, part_of_complex_restriction_m = False, max_up_slope_m = 0,
         max_down_slope_m = 0, density_m = 0, named_m = False, sidewalk_left_m = False,
         sidewalk_right_m = False, turntype_m = 0, edge_to_left_m = 0, stopimpact_m = 0,
         edge_to_right_m = 0, localedgeidx_m = 0, opp_local_idx_m = 0, shortcut_m = 0,
         is_shortcut_m = False, superseded_m = 0, leaves_tile_m = False \<rparr>
   \<and> (15 :: u32) < 200
   \<and> set_weighted_grade example_header 200 zeroed = zeroed\<lparr>weighted_grade_m := 6\<rparr>
   \<and> (9 :: u32) \<le> 15
   \<and> set_weighted_grade example_header 9 zeroed = zeroed\<lparr>weighted_grade_m := 9\<rparr>"
proof -
  have h1: "kMaxGradeFactor example_header = 15" by (simp add: example_header_def)
  have h2: "4 \<le> weighted_grade_bits example_header" by (simp add: example_header_def)
  have n1: "(15 :: u32) < 200" by simp
  have n2: "(9 :: u32) \<le> 15" by simp
  note t200 = weighted_grade_default [OF h1 h2, where e = zeroed and F = 200]
  note t9 = weighted_grade_default [OF h1 h2, where e = zeroed and F = 9]
  from t200 have a: "DirectedEdge_ctor example_header =
       \<lparr> endnode_m = 0, edgeinfo_offset_m = 0, access_restriction_m = 0,
         start_restriction_m = 0, end_restriction_m = 0, exitsign_m = False, length_m = 0,
         weighted_grade_m = 6, curvature_m = 0, drive_on_right_m = False,
         deadend_m = False, toll_m = False, seasonal_m = False, dest_only_m = False,
         tunnel_m = False, bridge_m = False, roundabout_m = False, unreachable_m = False,
         traffic_signal_m = False, forward_m = False, not_thru_m = False, opp_index_m = 0,
         cycle_lane_m = 0, bike_network_m = 0, truck_route_m = False, lanecount_m = 0,
         restrictions_m = 0, use_m = 0, speed_type_m = 0, ctry_crossing_m = False,
         forwardaccess_m = 0, reverseaccess_m = 0, speed_m = 0, speed_limit_m = 0,
         truck_speed_m = 0, classification_m = 0, surface_m = 0, link_m = False,
         internal_m = False, part_of_complex_restriction_m = False, max_up_slope_m = 0,
         max_down_slope_m = 0, density_m = 0, named_m = False, sidewalk_left_m = False,
         sidewalk_right_m = False, turntype_m = 0, edge_to_left_m = 0, stopimpact_m = 0,
         edge_to_right_m = 0, localedgeidx_m = 0, opp_local_idx_m = 0, shortcut_m = 0,
         is_shortcut_m = False, superseded_m = 0, leaves_tile_m = False \<rparr>"
    by (rule conjunct1)
  from t200 n1 have b: "set_weighted_grade example_header 200 zeroed =
      zeroed\<lparr>weighted_grade_m := 6\<rparr>"
    by blast
  from t9 n2 have c: "set_weighted_grade example_header 9 zeroed =
      zeroed\<lparr>weighted_grade_m := 9\<rparr>"
    by blast
  from h1 h2 a n1 b n2 c show ?thesis by (intro conjI)
qed

section \<open>The slope codec\<close>

lemma int_upto_16:
  fixes c :: int
  assumes "0 \<le> c" "c \<le> 16"
  shows "c = 16 \<or> c = 15 \<or> c = 14 \<or> c = 13 \<or> c = 12 \<or> c = 11 \<or> c = 10 \<or> c = 9
    \<or> c = 8 \<or> c = 7 \<or> c = 6 \<or> c = 5 \<or> c = 4 \<or> c = 3 \<or> c = 2 \<or> c = 1 \<or> c = 0"
  using assms by arith

lemma low_code:
  fixes n :: int
  assumes "0 \<le> n" "n \<le> 16"
  shows "unat (word_of_int n :: u32) < 32
    \<and> (if (word_of_int n :: u32) AND 0x10 = 0 then uint (word_of_int n :: u32)
        else 16 + uint ((word_of_int n :: u32) AND 0xf) * 4) = n"
  using int_upto_16 [OF assms] by (elim disjE) simp_all

lemma high_code:
  fixes k :: int
  assumes "0 \<le> k" "k \<le> 15"
  shows "unat (word_of_int (0x10 OR k) :: u32) < 32
    \<and> (if (word_of_int (0x10 OR k) :: u32) AND 0x10 = 0
        then uint (word_of_int (0x10 OR k) :: u32)
        else 16 + uint ((word_of_int (0x10 OR k) :: u32) AND 0xf) * 4) = 16 + k * 4"
proof -
  have "k \<le> 16" using assms(2) by simp
  from int_upto_16 [OF assms(1) this] assms(2) show ?thesis
    by (elim disjE) simp_all
qed

lemma slope_bitfield:
  assumes "5 \<le> w" "unat c < 32"
  shows "bitfield w c = c"
proof (rule bitfield_fits)
  have "(2 :: nat) ^ 5 \<le> 2 ^ w" using assms(1) by (rule power_increasing) simp
  then show "unat c < 2 ^ w" using assms(2) by simp
qed

lemma ceiling_low_range:
  fixes m :: real
  assumes "0 \<le> m" "m < 16"
  shows "0 \<le> \<lceil>m\<rceil>" and "\<lceil>m\<rceil> \<le> 16"
proof -
  show "0 \<le> \<lceil>m\<rceil>" using assms(1) by (simp add: zero_le_ceiling)
  show "\<lceil>m\<rceil> \<le> 16" using assms(2) by (simp add: ceiling_le_iff)
qed

lemma ceiling_high_range:
  fixes m :: real
  assumes "16 \<le> m" "m < 76"
  shows "0 \<le> \<lceil>(m - 16) * 0.25\<rceil>" and "\<lceil>(m - 16) * 0.25\<rceil> \<le> 15"
proof -
  show "0 \<le> \<lceil>(m - 16) * 0.25\<rceil>" using assms(1) by (simp add: zero_le_ceiling)
  show "\<lceil>(m - 16) * 0.25\<rceil> \<le> 15" using assms(2) by (simp add: ceiling_le_iff)
qed

lemma low_code_fits:
  fixes m :: real
  assumes "0 \<le> m" "m < 16"
  shows "unat (word_of_int \<lceil>m\<rceil> :: u32) < 32"
  using low_code [OF ceiling_low_range [OF assms]] by (rule conjunct1)

lemma high_code_fits:
  fixes m :: real
  assumes "16 \<le> m" "m < 76"
  shows "unat (word_of_int (0x10 OR \<lceil>(m - 16) * 0.25\<rceil>) :: u32) < 32"
  using high_code [OF ceiling_high_range [OF assms]] by (rule conjunct1)

lemma up_stored:
  assumes "5 \<le> max_up_slope_bits H"
  shows "max_up_slope_m (set_max_up_slope H m e) =
     (if m < 0 then 0
      else if m < 16 then word_of_int \<lceil>m\<rceil>
      else if m < 76 then word_of_int (0x10 OR \<lceil>(m - 16) * 0.25\<rceil>)
      else 0x1f)"
proof -
  have a: "bitfield (max_up_slope_bits H) 0 = 0" by (simp add: bitfield_def)
  have b: "bitfield (max_up_slope_bits H) (word_of_int \<lceil>m\<rceil>) = word_of_int \<lceil>m\<rceil>"
    if "0 \<le> m" "m < 16"
    using assms low_code_fits [OF that] by (rule slope_bitfield)
  have c: "bitfield (max_up_slope_bits H) (word_of_int (0x10 OR \<lceil>(m - 16) * 0.25\<rceil>)) =
      word_of_int (0x10 OR \<lceil>(m - 16) * 0.25\<rceil>)"
    if "16 \<le> m" "m < 76"
    using assms high_code_fits [OF that] by (rule slope_bitfield)
  have d: "bitfield (max_up_slope_bits H) 0x1f = 0x1f"
    using assms by (rule slope_bitfield) simp
  show ?thesis using a b c d by (simp add: set_max_up_slope_def not_less)
qed

lemma down_stored:
  assumes "5 \<le> max_down_slope_bits H"
  shows "max_down_slope_m (set_max_down_slope H (- m) e) =
     (if m < 0 then 0
      else if m < 16 then word_of_int \<lceil>m\<rceil>
      else if m < 76 then word_of_int (0x10 OR \<lceil>(m - 16) * 0.25\<rceil>)
      else 0x1f)"
proof -
  have a: "bitfield (max_down_slope_bits H) 0 = 0" by (simp add: bitfield_def)
  have b: "bitfield (max_down_slope_bits H) (word_of_int \<lceil>m\<rceil>) = word_of_int \<lceil>m\<rceil>"
    if "0 \<le> m" "m < 16"
    using assms low_code_fits [OF that] by (rule slope_bitfield)
  have c: "bitfield (max_down_slope_bits H) (word_of_int (0x10 OR \<lceil>(m - 16) * 0.25\<rceil>)) =
      word_of_int (0x10 OR \<lceil>(m - 16) * 0.25\<rceil>)"
    if "16 \<le> m" "m < 76"
    using assms high_code_fits [OF that] by (rule slope_bitfield)
  have d: "bitfield (max_down_slope_bits H) 0x1f = 0x1f"
    using assms by (rule slope_bitfield) simp
  show ?thesis using a b c d by (simp add: set_max_down_slope_def not_less)
qed

lemma down_negates_up:
  assumes "max_down_slope_m e1 = max_up_slope_m e2"
  shows "max_down_slope e1 = - max_up_slope e2"
  using assms by (simp add: max_down_slope_def max_up_slope_def)

lemma decode_low:
  fixes m :: real
  assumes "0 \<le> m" "m < 16" "max_up_slope_m e = word_of_int \<lceil>m\<rceil>"
  shows "max_up_slope e = \<lceil>m\<rceil>"
  unfolding max_up_slope_def assms(3)
  using low_code [OF ceiling_low_range [OF assms(1,2)]] by (rule conjunct2)

lemma decode_high:
  fixes m :: real
  assumes "16 \<le> m" "m < 76"
    and "max_up_slope_m e = word_of_int (0x10 OR \<lceil>(m - 16) * 0.25\<rceil>)"
  shows "max_up_slope e = 16 + \<lceil>(m - 16) * 0.25\<rceil> * 4"
  unfolding max_up_slope_def assms(3)
  using high_code [OF ceiling_high_range [OF assms(1,2)]] by (rule conjunct2)

lemma quantised_within_step:
  fixes m :: real
  shows "m \<le> real_of_int (16 + \<lceil>(m - 16) * 0.25\<rceil> * 4)
    \<and> real_of_int (16 + \<lceil>(m - 16) * 0.25\<rceil> * 4) < m + 4"
proof -
  define x where "x = (m - 16) * 0.25"
  define c where "c = \<lceil>x\<rceil>"
  have lo: "real_of_int c - 1 < x" and hi: "x \<le> real_of_int c"
    unfolding c_def using ceiling_correct [of x] by simp_all
  have x: "x = (m - 16) / 4" by (simp add: x_def)
  have "m \<le> 16 + real_of_int c * 4" using hi x by argo
  moreover have "16 + real_of_int c * 4 < m + 4" using lo x by argo
  ultimately have "m \<le> real_of_int (16 + c * 4) \<and> real_of_int (16 + c * 4) < m + 4"
    by simp
  then show ?thesis by (simp only: c_def x_def)
qed

text \<open>
  C6. With slope fields of at least five bits: for an upward slope \<open>m\<close> in \<open>[0, 16)\<close>,
  \<^verbatim>\<open>max_up_slope()\<close> after \<^verbatim>\<open>set_max_up_slope(m)\<close> is \<open>\<lceil>m\<rceil>\<close>; for \<open>m\<close> in \<open>[16, 76)\<close>
  the decoded value \<open>d\<close> satisfies \<open>m \<le> d < m + 4\<close> and \<open>16 \<le> d\<close>; for \<open>m \<ge> 76\<close> the
  stored code is \<open>0x1f\<close> and decodes to 76; a negative upward slope and a positive
  downward slope store 0; the downward codec stores for \<open>- m\<close> the code that the upward
  codec stores for \<open>m\<close>, and decodes it to the negated value.
\<close>

theorem slope_codec:
  assumes "5 \<le> max_up_slope_bits H" and "5 \<le> max_down_slope_bits H"
  shows "(0 \<le> m \<and> m < 16 \<longrightarrow> max_up_slope (set_max_up_slope H m e) = \<lceil>m\<rceil>)
    \<and> (16 \<le> m \<and> m < 76 \<longrightarrow>
          m \<le> real_of_int (max_up_slope (set_max_up_slope H m e))
          \<and> real_of_int (max_up_slope (set_max_up_slope H m e)) < m + 4
          \<and> 16 \<le> max_up_slope (set_max_up_slope H m e))
    \<and> (76 \<le> m \<longrightarrow>
          max_up_slope_m (set_max_up_slope H m e) = 0x1f
          \<and> max_up_slope (set_max_up_slope H m e) = 76)
    \<and> (m < 0 \<longrightarrow> max_up_slope_m (set_max_up_slope H m e) = 0)
    \<and> (0 < m \<longrightarrow> max_down_slope_m (set_max_down_slope H m e) = 0)
    \<and> max_down_slope_m (set_max_down_slope H (- m) e) = max_up_slope_m (set_max_up_slope H m e)
    \<and> max_down_slope (set_max_down_slope H (- m) e) = - max_up_slope (set_max_up_slope H m e)"
proof (intro conjI impI)
  assume r: "0 \<le> m \<and> m < 16"
  then have "max_up_slope_m (set_max_up_slope H m e) = word_of_int \<lceil>m\<rceil>"
    by (simp add: up_stored [OF assms(1)])
  with r show "max_up_slope (set_max_up_slope H m e) = \<lceil>m\<rceil>"
    by (intro decode_low) simp_all
next
  assume r: "16 \<le> m \<and> m < 76"
  then have "max_up_slope_m (set_max_up_slope H m e) =
      word_of_int (0x10 OR \<lceil>(m - 16) * 0.25\<rceil>)"
    by (simp add: up_stored [OF assms(1)])
  with r have d: "max_up_slope (set_max_up_slope H m e) = 16 + \<lceil>(m - 16) * 0.25\<rceil> * 4"
    by (intro decode_high) simp_all
  show "m \<le> real_of_int (max_up_slope (set_max_up_slope H m e))"
    unfolding d using quantised_within_step [of m] by (rule conjunct1)
  show "real_of_int (max_up_slope (set_max_up_slope H m e)) < m + 4"
    unfolding d using quantised_within_step [of m] by (rule conjunct2)
  have "0 \<le> \<lceil>(m - 16) * 0.25\<rceil>" using r by (intro ceiling_high_range(1)) simp_all
  then show "16 \<le> max_up_slope (set_max_up_slope H m e)" unfolding d by linarith
next
  assume r: "76 \<le> m"
  then show s: "max_up_slope_m (set_max_up_slope H m e) = 0x1f"
    by (simp add: up_stored [OF assms(1)])
  show "max_up_slope (set_max_up_slope H m e) = 76"
    by (simp add: max_up_slope_def s)
next
  assume "m < 0"
  then show "max_up_slope_m (set_max_up_slope H m e) = 0"
    by (simp add: up_stored [OF assms(1)])
next
  assume "0 < m"
  then show "max_down_slope_m (set_max_down_slope H m e) = 0"
    using down_stored [OF assms(2), where e = e and m = "- m"] by simp
next
  show sym: "max_down_slope_m (set_max_down_slope H (- m) e) =
      max_up_slope_m (set_max_up_slope H m e)"
    by (simp only: up_stored [OF assms(1)] down_stored [OF assms(2)])
  then show "max_down_slope (set_max_down_slope H (- m) e) =
      - max_up_slope (set_max_up_slope H m e)"
    by (rule down_negates_up)
qed

theorem slope_codec_witness:
  "5 \<le> max_up_slope_bits example_header \<and> 5 \<le> max_down_slope_bits example_header
   \<and> (0 :: real) \<le> 31 / 2 \<and> (31 / 2 :: real) < 16
   \<and> max_up_slope (set_max_up_slope example_header (31 / 2) zeroed) = 16
   \<and> (16 :: real) \<le> 30 \<and> (30 :: real) < 76
   \<and> max_up_slope (set_max_up_slope example_header 30 zeroed) = 32
   \<and> 30 \<le> real_of_int (max_up_slope (set_max_up_slope example_header 30 zeroed))
   \<and> real_of_int (max_up_slope (set_max_up_slope example_header 30 zeroed)) < 30 + 4
   \<and> (76 :: real) \<le> 80
   \<and> max_up_slope_m (set_max_up_slope example_header 80 zeroed) = 0x1f
   \<and> max_up_slope (set_max_up_slope example_header 80 zeroed) = 76
   \<and> (- 3 :: real) < 0
   \<and> max_up_slope_m (set_max_up_slope example_header (- 3) zeroed) = 0
   \<and> (0 :: real) < 3
   \<and> max_down_slope_m (set_max_down_slope example_header 3 zeroed) = 0
   \<and> max_down_slope (set_max_down_slope example_header (- 30) zeroed) = - 32"
proof -
  have h1: "5 \<le> max_up_slope_bits example_header" by (simp add: example_header_def)
  have h2: "5 \<le> max_down_slope_bits example_header" by (simp add: example_header_def)
  have low: "max_up_slope (set_max_up_slope example_header (31 / 2) zeroed) = 16"
    using slope_codec [OF h1 h2, where e = zeroed and m = "31 / 2"] by simp
  have v30: "max_up_slope (set_max_up_slope example_header 30 zeroed) = 32"
    by (simp add: set_max_up_slope_def max_up_slope_def example_header_def bitfield_def)
  have mid: "30 \<le> real_of_int (max_up_slope (set_max_up_slope example_header 30 zeroed))
      \<and> real_of_int (max_up_slope (set_max_up_slope example_header 30 zeroed)) < 30 + 4"
    using slope_codec [OF h1 h2, where e = zeroed and m = 30] by simp
  have top: "max_up_slope_m (set_max_up_slope example_header 80 zeroed) = 0x1f
      \<and> max_up_slope (set_max_up_slope example_header 80 zeroed) = 76"
    using slope_codec [OF h1 h2, where e = zeroed and m = 80] by simp
  have neg: "max_up_slope_m (set_max_up_slope example_header (- 3) zeroed) = 0"
    using slope_codec [OF h1 h2, where e = zeroed and m = "- 3"] by simp
  have pos: "max_down_slope_m (set_max_down_slope example_header 3 zeroed) = 0"
    using slope_codec [OF h1 h2, where e = zeroed and m = 3] by simp
  have down: "max_down_slope (set_max_down_slope example_header (- 30) zeroed) = - 32"
    using slope_codec [OF h1 h2, where e = zeroed and m = 30] v30 by simp
  show ?thesis using h1 h2 low v30 mid top neg pos down by simp
qed

section \<open>The JSON projection: what it shows and what it leaves out\<close>







end
